theory Spec2Isabelle
  imports Main "HOL-Library.Word"
begin

section \<open>Data model of main.go\<close>

text \<open>
  Go's \<^verbatim>\<open>int\<close> on the 64-bit targets this proxy is built for is a 64-bit two's
  complement integer: \<open>+\<close> and \<open>-\<close> wrap, comparisons are signed
  (\<open>\<le>s\<close>, \<open><s\<close>, read through \<open>sint\<close>).
\<close>

type_synonym go_int = "64 word"

text \<open>\<^verbatim>\<open>*net.TCPAddr\<close> and \<^verbatim>\<open>*net.TCPConn\<close> are opaque library values; a nil
  pointer is \<open>None\<close>.\<close>

datatype TCPAddr = TCPAddr (IP: string) (Port: int)

datatype TCPConn = TCPConn (handle: nat)

text \<open>Values of Go's \<^verbatim>\<open>error\<close> interface: the package's own \<^verbatim>\<open>errNoHost\<close>, the
  \<^verbatim>\<open>fmt.Errorf\<close> values, and errors handed back by library calls.\<close>

datatype error = errNoHost | Errorf string | LibError string

text \<open>Run-time panics: \<^verbatim>\<open>rand.Intn\<close> with a non-positive argument, an index out of
  range, and the explicit \<^verbatim>\<open>panic\<close> of \<^verbatim>\<open>MustSetWrapper\<close>.\<close>

datatype panic = PanicIntn | PanicIndex | PanicWrapper

record Host =
  Addr :: string
  Weight :: go_int
  Name :: string
  addr :: "TCPAddr option"

record Config =
  Hosts :: "Host list"

record scp_Conn =
  TargetServer :: string

text \<open>The interface \<^verbatim>\<open>LocalConnWrapper\<close> has the single method
  \<^verbatim>\<open>Wrapper(local, remote) (*net.TCPConn, error)\<close>; an implementation is that method,
  returning Go's pair of results.\<close>

type_synonym LocalConnWrapper = "TCPConn \<Rightarrow> scp_Conn \<Rightarrow> TCPConn option \<times> error option"

text \<open>The embedded \<^verbatim>\<open>sync.Mutex\<close> is not part of the sequential state.\<close>

record LocalConnProvider =
  hosts :: "Host list"
  weight :: go_int
  wrapper :: "LocalConnWrapper option"
  ConfigFile :: string

section \<open>Host selection\<close>

text \<open>\<^verbatim>\<open>rand.Intn(n)\<close> panics when \<open>n \<le> 0\<close> and otherwise returns some \<open>v\<close> with
  \<open>0 \<le> v < n\<close>. The value drawn is an input of the model.\<close>

definition Intn :: "go_int \<Rightarrow> go_int \<Rightarrow> panic + go_int" where
  "Intn n drawn = (if n \<le>s 0 then Inl PanicIntn else Inr drawn)"

text \<open>The loop of \<^verbatim>\<open>GetHostByWeight\<close>:
  \<^verbatim>\<open>for _, host := range tp.hosts { if host.Weight >= v { return &host }; v -= host.Weight }; return nil\<close>\<close>

fun weight_loop :: "go_int \<Rightarrow> Host list \<Rightarrow> Host option" where
  "weight_loop v [] = None"
| "weight_loop v (host # rest) =
     (if v \<le>s Weight host then Some host else weight_loop (v - Weight host) rest)"

definition GetHostByWeight :: "LocalConnProvider \<Rightarrow> go_int \<Rightarrow> panic + Host option" where
  "GetHostByWeight tp drawn =
     (case Intn (weight tp) drawn of
        Inl p \<Rightarrow> Inl p
      | Inr v \<Rightarrow> Inr (weight_loop v (hosts tp)))"

text \<open>The loop of \<^verbatim>\<open>GetHostByName\<close>; the log line written on failure is not
  modelled.\<close>

fun name_loop :: "string \<Rightarrow> Host list \<Rightarrow> Host option" where
  "name_loop name [] = None"
| "name_loop name (host # rest) =
     (if Name host = name then Some host else name_loop name rest)"

definition GetHostByName :: "LocalConnProvider \<Rightarrow> string \<Rightarrow> Host option" where
  "GetHostByName tp name = name_loop name (hosts tp)"

definition GetHost :: "LocalConnProvider \<Rightarrow> string \<Rightarrow> go_int \<Rightarrow> panic + Host option" where
  "GetHost tp preferred drawn =
     (if preferred = [] then GetHostByWeight tp drawn
      else Inr (GetHostByName tp preferred))"

text \<open>The selection rule as the specification words it: walk the descriptors
  accumulating weight and return the first whose cumulative weight exceeds the draw.\<close>

fun SelectWeighted_spec :: "int \<Rightarrow> int \<Rightarrow> Host list \<Rightarrow> Host option" where
  "SelectWeighted_spec draw acc [] = None"
| "SelectWeighted_spec draw acc (host # rest) =
     (if draw < acc + sint (Weight host) then Some host
      else SelectWeighted_spec draw (acc + sint (Weight host)) rest)"

definition mkHost :: "string \<Rightarrow> go_int \<Rightarrow> string \<Rightarrow> Host" where
  "mkHost a w n = \<lparr>Addr = a, Weight = w, Name = n, addr = None\<rparr>"

definition mkProvider :: "Host list \<Rightarrow> go_int \<Rightarrow> LocalConnProvider" where
  "mkProvider hs w = \<lparr>hosts = hs, weight = w, wrapper = None, ConfigFile = ''./settings.conf''\<rparr>"

section \<open>Wrap hook and backend connections\<close>

text \<open>\<^verbatim>\<open>MustSetWrapper\<close> mutates the provider or panics; the result is the panic, if
  any, and the provider afterwards. The argument is an interface value and may be nil.\<close>

definition MustSetWrapper ::
  "LocalConnProvider \<Rightarrow> LocalConnWrapper option \<Rightarrow> panic option \<times> LocalConnProvider" where
  "MustSetWrapper tp w =
     (case wrapper tp of
        Some old \<Rightarrow> (Some PanicWrapper, tp)
      | None \<Rightarrow> (None, tp\<lparr>wrapper := w\<rparr>))"

text \<open>What \<^verbatim>\<open>CreateLocalConn\<close> does to the network, in order.\<close>

datatype event = Dial "TCPAddr option" | Wrap TCPConn scp_Conn | Close TCPConn

text \<open>\<^verbatim>\<open>net.DialTCP\<close> is a parameter: it returns either an error or a connection.
  The host comes from the global provider, the hook from the receiver \<open>tp\<close>.\<close>

definition CreateLocalConn ::
  "(TCPAddr option \<Rightarrow> error + TCPConn) \<Rightarrow> LocalConnProvider \<Rightarrow> LocalConnProvider \<Rightarrow>
   scp_Conn \<Rightarrow> go_int \<Rightarrow> panic + ((TCPConn option \<times> error option) \<times> event list)" where
  "CreateLocalConn DialTCP glbLocalConnProvider tp remoteConn drawn =
     (case GetHost glbLocalConnProvider (TargetServer remoteConn) drawn of
        Inl p \<Rightarrow> Inl p
      | Inr None \<Rightarrow> Inr ((None, Some errNoHost), [])
      | Inr (Some host) \<Rightarrow>
          (case DialTCP (addr host) of
             Inl err \<Rightarrow> Inr ((None, Some err), [Dial (addr host)])
           | Inr conn \<Rightarrow>
               (case wrapper tp of
                  None \<Rightarrow> Inr ((Some conn, None), [Dial (addr host)])
                | Some w \<Rightarrow>
                    (case w conn remoteConn of
                       (newConn, Some err) \<Rightarrow>
                         Inr ((None, Some err),
                              [Dial (addr host), Wrap conn remoteConn, Close conn])
                     | (newConn, None) \<Rightarrow>
                         Inr ((newConn, None), [Dial (addr host), Wrap conn remoteConn])))))"

section \<open>Loading the pool\<close>

text \<open>The loop of \<^verbatim>\<open>reset\<close>: resolve each address, store it in the host, add the
  weight; the first address that does not resolve ends the function with its error.
  \<^verbatim>\<open>net.ResolveTCPAddr\<close> is a parameter.\<close>

fun resolve_loop ::
  "(string \<Rightarrow> error + TCPAddr) \<Rightarrow> go_int \<Rightarrow> Host list \<Rightarrow> error + (Host list \<times> go_int)" where
  "resolve_loop ResolveTCPAddr w [] = Inr ([], w)"
| "resolve_loop ResolveTCPAddr w (host # rest) =
     (case ResolveTCPAddr (Addr host) of
        Inl err \<Rightarrow> Inl err
      | Inr a \<Rightarrow>
          (case resolve_loop ResolveTCPAddr (w + Weight host) rest of
             Inl err \<Rightarrow> Inl err
           | Inr (rest', w') \<Rightarrow> Inr (host\<lparr>addr := Some a\<rparr> # rest', w')))"

definition reset ::
  "(string \<Rightarrow> error + TCPAddr) \<Rightarrow> LocalConnProvider \<Rightarrow> Host list \<Rightarrow>
   error option \<times> LocalConnProvider" where
  "reset ResolveTCPAddr tp hs =
     (case resolve_loop ResolveTCPAddr 0 hs of
        Inl err \<Rightarrow> (Some err, tp)
      | Inr (hs', w) \<Rightarrow>
          if w \<le>s 0 then (Some (Errorf ''no hosts''), tp)
          else (None, tp\<lparr>hosts := hs', weight := w\<rparr>))"

text \<open>\<^verbatim>\<open>Reload\<close>: \<^verbatim>\<open>os.Open\<close> and the JSON decoder are parameters. The decoder fills a
  fresh local \<^verbatim>\<open>Config\<close>, so the slice handed to \<^verbatim>\<open>reset\<close> shares nothing with the
  published \<^verbatim>\<open>tp.hosts\<close>.\<close>

definition Reload ::
  "(string \<Rightarrow> error + string) \<Rightarrow> (string \<Rightarrow> error + Config) \<Rightarrow> (string \<Rightarrow> error + TCPAddr) \<Rightarrow>
   LocalConnProvider \<Rightarrow> error option \<times> LocalConnProvider" where
  "Reload Open Decode ResolveTCPAddr tp =
     (case Open (ConfigFile tp) of
        Inl err \<Rightarrow> (Some err, tp)
      | Inr fp \<Rightarrow>
          (case Decode fp of
             Inl err \<Rightarrow> (Some err, tp)
           | Inr config \<Rightarrow> reset ResolveTCPAddr tp (Hosts config)))"

section \<open>Command line\<close>

record OptionsFlag =
  set_flag :: bool
  fecData :: go_int
  fecParity :: go_int

text \<open>Indexing a slice panics out of range.\<close>

definition index :: "'a list \<Rightarrow> nat \<Rightarrow> panic + 'a" where
  "index xs i = (if i < length xs then Inr (xs ! i) else Inl PanicIndex)"

text \<open>\<^verbatim>\<open>strings.Split(s, sep)\<close> for a one-byte separator: the pieces between the
  separators, at least one piece, the empty string giving one empty piece.\<close>

fun strings_Split :: "string \<Rightarrow> char \<Rightarrow> string list" where
  "strings_Split [] sep = [[]]"
| "strings_Split (c # cs) sep =
     (if c = sep then [] # strings_Split cs sep
      else (case strings_Split cs sep of
              [] \<Rightarrow> [[c]]
            | piece # pieces \<Rightarrow> (c # piece) # pieces))"

text \<open>The loop of \<^verbatim>\<open>OptionsFlag.Set\<close> over the comma-separated items.
  \<^verbatim>\<open>strconv.Atoi\<close> is a parameter. The result is a panic, or the returned error (nil
  is \<open>None\<close>) with the receiver as the call left it.\<close>

fun pairs_loop ::
  "(string \<Rightarrow> error + go_int) \<Rightarrow> OptionsFlag \<Rightarrow> string list \<Rightarrow>
   panic + (error option \<times> OptionsFlag)" where
  "pairs_loop Atoi opt [] = Inr (None, opt)"
| "pairs_loop Atoi opt (pair # rest) =
     (let option = strings_Split pair CHR '':'' in
      case index option 0 of
        Inl p \<Rightarrow> Inl p
      | Inr key \<Rightarrow>
          if key = ''fec_data'' then
            (case index option 1 of
               Inl p \<Rightarrow> Inl p
             | Inr v \<Rightarrow>
                 (case Atoi v of
                    Inl err \<Rightarrow> Inr (Some err, opt)
                  | Inr data \<Rightarrow> pairs_loop Atoi (opt\<lparr>fecData := data\<rparr>) rest))
          else if key = ''fec_parity'' then
            (case index option 1 of
               Inl p \<Rightarrow> Inl p
             | Inr v \<Rightarrow>
                 (case Atoi v of
                    Inl err \<Rightarrow> Inr (Some err, opt)
                  | Inr parity \<Rightarrow> pairs_loop Atoi (opt\<lparr>fecParity := parity\<rparr>) rest))
          else pairs_loop Atoi opt rest)"

definition Set_flag ::
  "(string \<Rightarrow> error + go_int) \<Rightarrow> OptionsFlag \<Rightarrow> string \<Rightarrow> panic + (error option \<times> OptionsFlag)" where
  "Set_flag Atoi opt val =
     pairs_loop Atoi (opt\<lparr>set_flag := True\<rparr>) (strings_Split val CHR '','')"

text \<open>Lines 295 to 315 of \<^verbatim>\<open>main\<close>: the default, then one \<^verbatim>\<open>Start\<close> per enabled
  transport. The result lists the transports started.\<close>

definition start_listeners :: "OptionsFlag \<Rightarrow> OptionsFlag \<Rightarrow> string list" where
  "start_listeners tcp kcp =
     (let tcp' = (if \<not> set_flag kcp \<and> \<not> set_flag tcp then tcp\<lparr>set_flag := True\<rparr> else tcp)
      in (if set_flag tcp' then [''tcp''] else []) @ (if set_flag kcp then [''kcp''] else []))"

text \<open>\<^verbatim>\<open>wrapperHook\<close> runs the installed hooks in order on the provider; a hook may
  call \<^verbatim>\<open>MustSetWrapper\<close>, so it returns the provider it leaves, or panics.\<close>

fun wrapperHook ::
  "(LocalConnProvider \<Rightarrow> panic option \<times> LocalConnProvider) list \<Rightarrow> LocalConnProvider \<Rightarrow>
   panic option \<times> LocalConnProvider" where
  "wrapperHook [] provider = (None, provider)"
| "wrapperHook (hook # hooks) provider =
     (case hook provider of
        (Some p, provider') \<Rightarrow> (Some p, provider')
      | (None, provider') \<Rightarrow> wrapperHook hooks provider')"

definition zero_OptionsFlag :: OptionsFlag where
  "zero_OptionsFlag = \<lparr>set_flag = False, fecData = 0, fecParity = 0\<rparr>"

text \<open>The variables \<^verbatim>\<open>main\<close> binds to flags (lines 250 to 265), with the defaults the
  registrations give them.\<close>

record flag_vars =
  tcp :: OptionsFlag
  kcp :: OptionsFlag
  config :: string
  listen :: string
  logLevel :: go_int
  reuseTimeout :: go_int
  sentCacheSize :: go_int
  optUploadMinPacket :: go_int
  optUploadMaxDelay :: go_int

definition default_vars :: flag_vars where
  "default_vars =
     \<lparr>tcp = zero_OptionsFlag, kcp = zero_OptionsFlag, config = ''./settings.conf'',
      listen = ''0.0.0.0:1248'', logLevel = 2, reuseTimeout = 30, sentCacheSize = 65536,
      optUploadMinPacket = 0, optUploadMaxDelay = 0\<rparr>"

text \<open>The flag set after the nine registrations: the variable a flag name stands for.
  No flag \<^verbatim>\<open>h\<close> or \<^verbatim>\<open>help\<close> is registered.\<close>

datatype flag_var =
  Var_tcp | Var_kcp | Var_config | Var_listen | Var_log | Var_timeout | Var_sbuf
  | Var_uploadMinPacket | Var_uploadMaxDelay

definition formal :: "string \<Rightarrow> flag_var option" where
  "formal name =
     (if name = ''tcp'' then Some Var_tcp
      else if name = ''kcp'' then Some Var_kcp
      else if name = ''config'' then Some Var_config
      else if name = ''listen'' then Some Var_listen
      else if name = ''log'' then Some Var_log
      else if name = ''timeout'' then Some Var_timeout
      else if name = ''sbuf'' then Some Var_sbuf
      else if name = ''uploadMinPacket'' then Some Var_uploadMinPacket
      else if name = ''uploadMaxDelay'' then Some Var_uploadMaxDelay
      else None)"

text \<open>\<^verbatim>\<open>flag.Value.Set\<close> of the variable behind a flag: \<^verbatim>\<open>OptionsFlag.Set\<close> for
  \<^verbatim>\<open>tcp\<close> and \<^verbatim>\<open>kcp\<close>, plain assignment for the strings, and the library's integer
  parse (a parameter, \<open>ParseInt\<close>) for the integers.\<close>

definition int_Set ::
  "(string \<Rightarrow> error + go_int) \<Rightarrow> string \<Rightarrow> (go_int \<Rightarrow> flag_vars) \<Rightarrow> flag_vars \<Rightarrow>
   panic + (error option \<times> flag_vars)" where
  "int_Set ParseInt val assign vars =
     (case ParseInt val of
        Inl err \<Rightarrow> Inr (Some err, vars)
      | Inr n \<Rightarrow> Inr (None, assign n))"

definition Value_Set ::
  "(string \<Rightarrow> error + go_int) \<Rightarrow> (string \<Rightarrow> error + go_int) \<Rightarrow> flag_var \<Rightarrow> string \<Rightarrow>
   flag_vars \<Rightarrow> panic + (error option \<times> flag_vars)" where
  "Value_Set ParseInt Atoi var val vars =
     (case var of
        Var_tcp \<Rightarrow>
          (case Set_flag Atoi (tcp vars) val of
             Inl p \<Rightarrow> Inl p
           | Inr (err, opt) \<Rightarrow> Inr (err, vars\<lparr>tcp := opt\<rparr>))
      | Var_kcp \<Rightarrow>
          (case Set_flag Atoi (kcp vars) val of
             Inl p \<Rightarrow> Inl p
           | Inr (err, opt) \<Rightarrow> Inr (err, vars\<lparr>kcp := opt\<rparr>))
      | Var_config \<Rightarrow> Inr (None, vars\<lparr>config := val\<rparr>)
      | Var_listen \<Rightarrow> Inr (None, vars\<lparr>listen := val\<rparr>)
      | Var_log \<Rightarrow> int_Set ParseInt val (\<lambda>n. vars\<lparr>logLevel := n\<rparr>) vars
      | Var_timeout \<Rightarrow> int_Set ParseInt val (\<lambda>n. vars\<lparr>reuseTimeout := n\<rparr>) vars
      | Var_sbuf \<Rightarrow> int_Set ParseInt val (\<lambda>n. vars\<lparr>sentCacheSize := n\<rparr>) vars
      | Var_uploadMinPacket \<Rightarrow> int_Set ParseInt val (\<lambda>n. vars\<lparr>optUploadMinPacket := n\<rparr>) vars
      | Var_uploadMaxDelay \<Rightarrow> int_Set ParseInt val (\<lambda>n. vars\<lparr>optUploadMaxDelay := n\<rparr>) vars)"

text \<open>The name of a flag argument once its one or two leading minus signs are gone,
  cut at the first \<^verbatim>\<open>=\<close> after its first character; what follows the \<^verbatim>\<open>=\<close> is the
  value.\<close>

definition strip_minuses :: "string \<Rightarrow> string" where
  "strip_minuses s = drop (if take 2 s = ''--'' then 2 else 1) s"

definition cut_equals :: "string \<Rightarrow> string \<times> string option" where
  "cut_equals name =
     (if CHR ''='' \<in> set (drop 1 name)
      then (take 1 name @ takeWhile (\<lambda>c. c \<noteq> CHR ''='') (drop 1 name),
            Some (drop 1 (dropWhile (\<lambda>c. c \<noteq> CHR ''='') (drop 1 name))))
      else (name, None))"

text \<open>\<^verbatim>\<open>flag.Parse\<close> over \<^verbatim>\<open>os.Args[1:]\<close>, as the library's \<^verbatim>\<open>parseOne\<close> loop does it.
  An argument shorter than two characters or not starting with \<^verbatim>\<open>-\<close>, or the argument
  \<^verbatim>\<open>--\<close>, ends the flags. Bad syntax, a name that is not registered (also \<^verbatim>\<open>-h\<close> and
  \<^verbatim>\<open>-help\<close>), a flag with no value and a value its variable refuses all end in
  \<^verbatim>\<open>usage()\<close>, which exits: these are the results with an error.\<close>

fun flag_Parse ::
  "(string \<Rightarrow> error + go_int) \<Rightarrow> (string \<Rightarrow> error + go_int) \<Rightarrow> flag_vars \<Rightarrow> string list \<Rightarrow>
   panic + (error option \<times> flag_vars)" where
  "flag_Parse ParseInt Atoi vars [] = Inr (None, vars)"
| "flag_Parse ParseInt Atoi vars (s # rest) =
     (if length s < 2 \<or> take 1 s \<noteq> ''-'' then Inr (None, vars)
      else if s = ''--'' then Inr (None, vars)
      else if strip_minuses s = [] \<or> take 1 (strip_minuses s) = ''-''
              \<or> take 1 (strip_minuses s) = ''='' then
        Inr (Some (Errorf ''bad flag syntax''), vars)
      else
        (case formal (fst (cut_equals (strip_minuses s))) of
           None \<Rightarrow>
             if fst (cut_equals (strip_minuses s)) = ''help''
                \<or> fst (cut_equals (strip_minuses s)) = ''h''
             then Inr (Some (Errorf ''flag: help requested''), vars)
             else Inr (Some (Errorf ''flag provided but not defined''), vars)
         | Some var \<Rightarrow>
             (case snd (cut_equals (strip_minuses s)) of
                Some val \<Rightarrow>
                  (case Value_Set ParseInt Atoi var val vars of
                     Inl p \<Rightarrow> Inl p
                   | Inr (Some err, vars') \<Rightarrow> Inr (Some (Errorf ''invalid value''), vars')
                   | Inr (None, vars') \<Rightarrow> flag_Parse ParseInt Atoi vars' rest)
              | None \<Rightarrow>
                  (case rest of
                     [] \<Rightarrow> Inr (Some (Errorf ''flag needs an argument''), vars)
                   | val # rest' \<Rightarrow>
                       (case Value_Set ParseInt Atoi var val vars of
                          Inl p \<Rightarrow> Inl p
                        | Inr (Some err, vars') \<Rightarrow> Inr (Some (Errorf ''invalid value''), vars')
                        | Inr (None, vars') \<Rightarrow> flag_Parse ParseInt Atoi vars' rest')))))"

text \<open>An argument reads as the flag \<open>name\<close>: it has the form of a flag and the name
  \<^verbatim>\<open>flag.Parse\<close> takes from it is \<open>name\<close> (\<^verbatim>\<open>-tcp\<close>, \<^verbatim>\<open>--tcp\<close>, \<^verbatim>\<open>-tcp=...\<close>).\<close>

definition names_flag :: "string \<Rightarrow> string \<Rightarrow> bool" where
  "names_flag s name \<longleftrightarrow>
     2 \<le> length s \<and> take 1 s = ''-'' \<and> fst (cut_equals (strip_minuses s)) = name"

text \<open>How a run of \<^verbatim>\<open>main\<close> ends up: a panic, the exit after a failed flag parse, the
  return after a failed pool load, or serving on the transports started. Logging, the
  signal handler and the construction of the server are left out.\<close>

datatype main_outcome =
  Panicked panic | UsageExit error | LoadFailed error | Listening "string list"

definition main ::
  "(string \<Rightarrow> error + go_int) \<Rightarrow> (string \<Rightarrow> error + go_int) \<Rightarrow> (string \<Rightarrow> error + string) \<Rightarrow>
   (string \<Rightarrow> error + Config) \<Rightarrow> (string \<Rightarrow> error + TCPAddr) \<Rightarrow>
   (LocalConnProvider \<Rightarrow> panic option \<times> LocalConnProvider) list \<Rightarrow> string list \<Rightarrow> main_outcome" where
  "main ParseInt Atoi Open Decode ResolveTCPAddr glbWrapperHooks args =
     (case flag_Parse ParseInt Atoi default_vars args of
        Inl p \<Rightarrow> Panicked p
      | Inr (Some err, vars) \<Rightarrow> UsageExit err
      | Inr (None, vars) \<Rightarrow>
          (case Reload Open Decode ResolveTCPAddr
                  \<lparr>hosts = [], weight = 0, wrapper = None, ConfigFile = config vars\<rparr> of
             (Some err, tp) \<Rightarrow> LoadFailed err
           | (None, tp) \<Rightarrow>
               (case wrapperHook glbWrapperHooks tp of
                  (Some p, tp') \<Rightarrow> Panicked p
                | (None, tp') \<Rightarrow> Listening (start_listeners (tcp vars) (kcp vars)))))"

section \<open>Sample library behaviour and sample values\<close>

text \<open>Concrete stand-ins for the library calls and hooks, used to run the functions on
  explicit inputs. \<open>resolved\<close> is a host after \<^verbatim>\<open>reset\<close> stored its address.\<close>

definition resolved :: "(string \<Rightarrow> error + TCPAddr) \<Rightarrow> Host \<Rightarrow> Host" where
  "resolved ResolveTCPAddr host = host\<lparr>addr := Some (projr (ResolveTCPAddr (Addr host)))\<rparr>"

definition resolve_any :: "string \<Rightarrow> error + TCPAddr" where
  "resolve_any s = (if s = ''bad:1'' then Inl (LibError ''unknown host'') else Inr (TCPAddr s 1))"

definition open_ok :: "string \<Rightarrow> error + string" where
  "open_ok path = Inr ''{...}''"

definition decode_as :: "Host list \<Rightarrow> string \<Rightarrow> error + Config" where
  "decode_as hs text = Inr \<lparr>Hosts = hs\<rparr>"

definition atoi_none :: "string \<Rightarrow> error + go_int" where
  "atoi_none s = Inl (LibError ''invalid syntax'')"

definition parse_int_sample :: "string \<Rightarrow> error + go_int" where
  "parse_int_sample s = (if s = ''3'' then Inr 3 else Inl (LibError ''invalid syntax''))"

definition dial_ok :: "TCPAddr option \<Rightarrow> error + TCPConn" where
  "dial_ok a = Inr (TCPConn 7)"

definition dial_refused :: "TCPAddr option \<Rightarrow> error + TCPConn" where
  "dial_refused a = Inl (LibError ''connection refused'')"

definition closing_hook :: LocalConnWrapper where
  "closing_hook conn remote = (None, Some (LibError ''wrap failed''))"

definition passing_hook :: LocalConnWrapper where
  "passing_hook conn remote = (Some conn, None)"

section \<open>Weighted selection\<close>

text \<open>
  C1. Claim: for a pool with non-negative weights and positive total, and a draw in
  \<open>[0, total)\<close>, \<^verbatim>\<open>GetHostByWeight\<close> returns the first descriptor whose cumulative
  weight exceeds the draw, so each host gets its weight's share of the draws and a host
  of weight 0 is never returned.

  The code compares with \<^verbatim>\<open>>=\<close> where the rule needs \<^verbatim>\<open>>\<close>. With two hosts of weight 1
  (total 2) both possible draws 0 and 1 return the first host, while the rule gives the
  second host for draw 1; and with weights 0 and 1 (total 1) the only draw 0 returns the
  host of weight 0.
\<close>

theorem GetHostByWeight_off_by_one:
  "GetHostByWeight (mkProvider [mkHost ''a:1'' 1 ''A'', mkHost ''b:1'' 1 ''B''] 2) 0
     = Inr (Some (mkHost ''a:1'' 1 ''A''))
   \<and> GetHostByWeight (mkProvider [mkHost ''a:1'' 1 ''A'', mkHost ''b:1'' 1 ''B''] 2) 1
     = Inr (Some (mkHost ''a:1'' 1 ''A''))
   \<and> SelectWeighted_spec 1 0 [mkHost ''a:1'' 1 ''A'', mkHost ''b:1'' 1 ''B'']
     = Some (mkHost ''b:1'' 1 ''B'')
   \<and> GetHostByWeight (mkProvider [mkHost ''z:1'' 0 ''Z'', mkHost ''b:1'' 1 ''B''] 1) 0
     = Inr (Some (mkHost ''z:1'' 0 ''Z''))
   \<and> SelectWeighted_spec 0 0 [mkHost ''z:1'' 0 ''Z'', mkHost ''b:1'' 1 ''B'']
     = Some (mkHost ''b:1'' 1 ''B'')"
  by (simp add: GetHostByWeight_def Intn_def mkProvider_def mkHost_def word_sle_eq)

subsection \<open>The loop finds a host\<close>

text \<open>Along the loop \<open>v\<close> stays positive and drops by each weight passed, without
  wrapping; a loop that runs off the end has \<open>v\<close> at least the true sum of the weights,
  and the true sum of non-negative weights is at least the wrapped sum.\<close>

lemma sint_sub_no_wrap:
  fixes v w :: go_int
  assumes "0 \<le> sint w" "sint w < sint v"
  shows "sint (v - w) = sint v - sint w"
proof -
  have "sint v < 2 ^ 63" using sint_lt [of v] by simp
  moreover have "- (2 ^ 63) \<le> sint v" using sint_ge [of v] by simp
  ultimately have "- (2 ^ 63) \<le> sint v - sint w" "sint v - sint w < 2 ^ 63"
    using assms by linarith+
  then show ?thesis
    by (simp add: sint_word_ariths signed_take_bit_int_eq_self)
qed

lemma weight_loop_None:
  "weight_loop v hs = None \<Longrightarrow> 0 \<le> sint v \<Longrightarrow> \<forall>h\<in>set hs. 0 \<le> sint (Weight h)
   \<Longrightarrow> (\<Sum>h\<leftarrow>hs. sint (Weight h)) \<le> sint v"
proof (induction hs arbitrary: v)
  case Nil
  then show ?case by simp
next
  case (Cons h hs)
  from Cons.prems(1) have lt: "sint (Weight h) < sint v"
    and rest: "weight_loop (v - Weight h) hs = None"
    by (auto simp: word_sle_eq split: if_splits)
  have h0: "0 \<le> sint (Weight h)" using Cons.prems(3) by simp
  have eq: "sint (v - Weight h) = sint v - sint (Weight h)"
    using sint_sub_no_wrap [OF h0 lt] .
  have "(\<Sum>h\<leftarrow>hs. sint (Weight h)) \<le> sint (v - Weight h)"
    using Cons.IH [OF rest] eq lt Cons.prems(3) by simp
  then show ?case using eq by simp
qed

lemma weight_loop_Some_mem: "weight_loop v hs = Some x \<Longrightarrow> x \<in> set hs"
  by (induction hs arbitrary: v) (auto split: if_splits)

lemma word_sum_of_int:
  "(word_of_int (\<Sum>h\<leftarrow>hs. sint (Weight h)) :: go_int) = sum_list (map Weight hs)"
  by (induction hs) simp_all

lemma sint_sum_le:
  assumes "\<forall>h\<in>set hs. 0 \<le> sint (Weight h)"
  shows "sint (sum_list (map Weight hs) :: go_int) \<le> (\<Sum>h\<leftarrow>hs. sint (Weight h))"
proof -
  have nonneg: "0 \<le> (\<Sum>h\<leftarrow>hs. sint (Weight h))"
    using assms by (induction hs) auto
  have "sint (word_of_int (\<Sum>h\<leftarrow>hs. sint (Weight h)) :: go_int)
          = signed_take_bit 63 (\<Sum>h\<leftarrow>hs. sint (Weight h))"
    by (simp add: sint_sbintrunc')
  also have "\<dots> \<le> (\<Sum>h\<leftarrow>hs. sint (Weight h))"
    using nonneg by (simp add: signed_take_bit_int_less_eq_self_iff)
  finally show ?thesis by (simp add: word_sum_of_int)
qed

lemma weight_loop_finds_host:
  assumes total: "weight tp = sum_list (map Weight (hosts tp))"
    and pos: "0 <s weight tp"
    and nonneg: "\<forall>h\<in>set (hosts tp). 0 \<le>s Weight h"
    and lo: "0 \<le>s drawn" and hi: "drawn <s weight tp"
  shows "\<exists>host\<in>set (hosts tp). GetHostByWeight tp drawn = Inr (Some host)"
proof -
  have nn: "\<forall>h\<in>set (hosts tp). 0 \<le> sint (Weight h)"
    using nonneg by (simp add: word_sle_eq)
  have v0: "0 \<le> sint drawn" using lo by (simp add: word_sle_eq)
  have "weight_loop drawn (hosts tp) \<noteq> None"
  proof
    assume none: "weight_loop drawn (hosts tp) = None"
    have "sint (weight tp) \<le> (\<Sum>h\<leftarrow>hosts tp. sint (Weight h))"
      using sint_sum_le [OF nn] total by simp
    also have "\<dots> \<le> sint drawn"
      using weight_loop_None [OF none v0 nn] .
    finally show False using hi by (simp add: word_sless_alt)
  qed
  then obtain host where h: "weight_loop drawn (hosts tp) = Some host" by blast
  have "\<not> weight tp \<le>s 0" using pos by (simp add: word_sle_eq word_sless_alt)
  then have "GetHostByWeight tp drawn = Inr (Some host)"
    using h by (simp add: GetHostByWeight_def Intn_def)
  with weight_loop_Some_mem [OF h] show ?thesis by blast
qed

section \<open>Selection by name\<close>

lemma name_loop_None: "name_loop name hs = None \<longleftrightarrow> (\<forall>h\<in>set hs. Name h \<noteq> name)"
  by (induction hs) auto

lemma name_loop_Some:
  "name_loop name hs = Some host \<Longrightarrow>
   \<exists>pre post. hs = pre @ host # post \<and> Name host = name \<and> (\<forall>h\<in>set pre. Name h \<noteq> name)"
proof (induction hs)
  case Nil
  then show ?case by simp
next
  case (Cons h hs)
  show ?case
  proof (cases "Name h = name")
    case True
    with Cons.prems have "host = h" by simp
    with True have "h # hs = [] @ host # hs \<and> Name host = name
        \<and> (\<forall>x\<in>set []. Name x \<noteq> name)"
      by simp
    then show ?thesis by blast
  next
    case False
    with Cons.prems have "name_loop name hs = Some host" by simp
    from Cons.IH [OF this] obtain pre post where
      "hs = pre @ host # post" "Name host = name" "\<forall>x\<in>set pre. Name x \<noteq> name" by blast
    with False have "h # hs = (h # pre) @ host # post \<and> Name host = name
        \<and> (\<forall>x\<in>set (h # pre). Name x \<noteq> name)" by simp
    then show ?thesis by blast
  qed
qed

text \<open>
  C3. Claim: \<^verbatim>\<open>GetHostByName\<close> is total over the pool. If some descriptor has the name,
  the result is the first such descriptor in pool order; if none has it, the result is
  nil, never another host.
\<close>

theorem GetHostByName_first_match:
  "((\<exists>h\<in>set (hosts tp). Name h = name) \<longrightarrow>
      (\<exists>pre host post. hosts tp = pre @ host # post \<and> Name host = name
         \<and> (\<forall>h\<in>set pre. Name h \<noteq> name) \<and> GetHostByName tp name = Some host))
   \<and> ((\<forall>h\<in>set (hosts tp). Name h \<noteq> name) \<longrightarrow> GetHostByName tp name = None)"
proof (intro conjI impI)
  assume "\<exists>h\<in>set (hosts tp). Name h = name"
  then have "name_loop name (hosts tp) \<noteq> None" by (simp add: name_loop_None)
  then obtain host where h: "name_loop name (hosts tp) = Some host" by blast
  from name_loop_Some [OF h] h
  show "\<exists>pre host post. hosts tp = pre @ host # post \<and> Name host = name
         \<and> (\<forall>h\<in>set pre. Name h \<noteq> name) \<and> GetHostByName tp name = Some host"
    unfolding GetHostByName_def by blast
next
  assume "\<forall>h\<in>set (hosts tp). Name h \<noteq> name"
  then show "GetHostByName tp name = None"
    by (simp add: GetHostByName_def name_loop_None)
qed

theorem GetHostByName_first_match_witness:
  "GetHostByName
      (mkProvider [mkHost ''a:1'' 1 ''A'', mkHost ''b:1'' 1 ''B'', mkHost ''c:1'' 5 ''B''] 7) ''B''
     = Some (mkHost ''b:1'' 1 ''B'')
   \<and> GetHostByName
      (mkProvider [mkHost ''a:1'' 1 ''A'', mkHost ''b:1'' 1 ''B'', mkHost ''c:1'' 5 ''B''] 7) ''C''
     = None"
  using GetHostByName_first_match
    [of "mkProvider [mkHost ''a:1'' 1 ''A'', mkHost ''b:1'' 1 ''B'', mkHost ''c:1'' 5 ''B''] 7"
        "''B''"]
    GetHostByName_first_match
    [of "mkProvider [mkHost ''a:1'' 1 ''A'', mkHost ''b:1'' 1 ''B'', mkHost ''c:1'' 5 ''B''] 7"
        "''C''"]
  by (simp add: mkProvider_def mkHost_def GetHostByName_def)

section \<open>Registering the wrap hook\<close>

text \<open>
  C6. Claim: \<^verbatim>\<open>MustSetWrapper\<close> on a provider that already has a hook panics and leaves
  the hook in place; on a provider with no hook it installs the given hook.
\<close>

theorem MustSetWrapper_no_overwrite:
  "(wrapper tp \<noteq> None \<longrightarrow> MustSetWrapper tp w = (Some PanicWrapper, tp))
   \<and> (wrapper tp = None \<longrightarrow> MustSetWrapper tp w = (None, tp\<lparr>wrapper := w\<rparr>))"
  by (auto simp: MustSetWrapper_def)

theorem MustSetWrapper_no_overwrite_witness:
  "wrapper (mkProvider [] 0) = None
   \<and> wrapper (snd (MustSetWrapper (mkProvider [] 0) (Some passing_hook))) = Some passing_hook
   \<and> fst (MustSetWrapper (mkProvider [] 0) (Some passing_hook)) = None
   \<and> MustSetWrapper (snd (MustSetWrapper (mkProvider [] 0) (Some passing_hook))) (Some closing_hook)
       = (Some PanicWrapper, snd (MustSetWrapper (mkProvider [] 0) (Some passing_hook)))"
  using MustSetWrapper_no_overwrite [of "mkProvider [] 0" "Some passing_hook"]
    MustSetWrapper_no_overwrite
      [of "snd (MustSetWrapper (mkProvider [] 0) (Some passing_hook))" "Some closing_hook"]
  by (simp add: mkProvider_def)

section \<open>Parsing the transport options\<close>

text \<open>
  C9. Claim: \<^verbatim>\<open>OptionsFlag.Set\<close> is total on strings: for every value, also one with an
  item \<^verbatim>\<open>fec_data\<close> or \<^verbatim>\<open>fec_parity\<close> that has no \<^verbatim>\<open>:\<close>, it records the counts or
  returns a parse error, and never indexes the split item out of bounds.

  For the item \<^verbatim>\<open>fec_data\<close> the split has one element and \<^verbatim>\<open>option[1]\<close> panics,
  whatever \<^verbatim>\<open>strconv.Atoi\<close> does and whatever the receiver holds.
\<close>

theorem Set_flag_index_out_of_range:
  "Set_flag Atoi opt ''fec_data'' = Inl PanicIndex
   \<and> Set_flag Atoi opt ''fec_parity'' = Inl PanicIndex"
  by (simp add: Set_flag_def index_def)

section \<open>Providing a backend connection\<close>

text \<open>
  C4. Claim: \<^verbatim>\<open>CreateLocalConn\<close> dispatches by the preferred name and never falls back:
  an empty name selects by weight, a non-empty name selects by name; when no host is
  found the result is \<^verbatim>\<open>errNoHost\<close> and nothing is dialed; when the dial fails its error
  is returned as it is, after that one dial. In every run that finds a host the first
  event is the dial of that host's address and no other dial follows.
\<close>

theorem CreateLocalConn_dispatch_no_fallback:
  "(TargetServer remoteConn = [] \<longrightarrow>
      GetHost glb (TargetServer remoteConn) drawn = GetHostByWeight glb drawn)
   \<and> (TargetServer remoteConn \<noteq> [] \<longrightarrow>
      GetHost glb (TargetServer remoteConn) drawn = Inr (GetHostByName glb (TargetServer remoteConn)))
   \<and> (GetHost glb (TargetServer remoteConn) drawn = Inr None \<longrightarrow>
      CreateLocalConn DialTCP glb tp remoteConn drawn = Inr ((None, Some errNoHost), []))
   \<and> (\<forall>host err. GetHost glb (TargetServer remoteConn) drawn = Inr (Some host)
         \<and> DialTCP (addr host) = Inl err \<longrightarrow>
      CreateLocalConn DialTCP glb tp remoteConn drawn = Inr ((None, Some err), [Dial (addr host)]))
   \<and> (\<forall>host. GetHost glb (TargetServer remoteConn) drawn = Inr (Some host) \<longrightarrow>
      (\<exists>res evs. CreateLocalConn DialTCP glb tp remoteConn drawn = Inr (res, Dial (addr host) # evs)
         \<and> (\<forall>a. Dial a \<notin> set evs)))"
proof (intro conjI impI allI)
  assume "TargetServer remoteConn = []"
  then show "GetHost glb (TargetServer remoteConn) drawn = GetHostByWeight glb drawn"
    by (simp add: GetHost_def)
next
  assume "TargetServer remoteConn \<noteq> []"
  then show "GetHost glb (TargetServer remoteConn) drawn
      = Inr (GetHostByName glb (TargetServer remoteConn))"
    by (simp add: GetHost_def)
next
  assume "GetHost glb (TargetServer remoteConn) drawn = Inr None"
  then show "CreateLocalConn DialTCP glb tp remoteConn drawn = Inr ((None, Some errNoHost), [])"
    by (simp add: CreateLocalConn_def)
next
  fix host err
  assume "GetHost glb (TargetServer remoteConn) drawn = Inr (Some host)
      \<and> DialTCP (addr host) = Inl err"
  then show "CreateLocalConn DialTCP glb tp remoteConn drawn
      = Inr ((None, Some err), [Dial (addr host)])"
    by (simp add: CreateLocalConn_def)
next
  fix host
  assume "GetHost glb (TargetServer remoteConn) drawn = Inr (Some host)"
  then show "\<exists>res evs. CreateLocalConn DialTCP glb tp remoteConn drawn
        = Inr (res, Dial (addr host) # evs) \<and> (\<forall>a. Dial a \<notin> set evs)"
    by (simp add: CreateLocalConn_def split: sum.split option.split prod.split)
qed

theorem CreateLocalConn_dispatch_no_fallback_witness:
  "CreateLocalConn dial_refused
      (mkProvider (map (resolved resolve_any) [mkHost ''a:1'' 1 ''A'', mkHost ''b:1'' 1 ''B'']) 2)
      (mkProvider [] 0) \<lparr>TargetServer = ''B''\<rparr> 0
     = Inr ((None, Some (LibError ''connection refused'')), [Dial (Some (TCPAddr ''b:1'' 1))])
   \<and> CreateLocalConn dial_refused
      (mkProvider (map (resolved resolve_any) [mkHost ''a:1'' 1 ''A'', mkHost ''b:1'' 1 ''B'']) 2)
      (mkProvider [] 0) \<lparr>TargetServer = ''C''\<rparr> 0
     = Inr ((None, Some errNoHost), [])
   \<and> CreateLocalConn dial_refused
      (mkProvider (map (resolved resolve_any) [mkHost ''a:1'' 1 ''A'', mkHost ''b:1'' 1 ''B'']) 2)
      (mkProvider [] 0) \<lparr>TargetServer = ''''\<rparr> 0
     = Inr ((None, Some (LibError ''connection refused'')), [Dial (Some (TCPAddr ''a:1'' 1))])"
proof -
  let ?glb = "mkProvider (map (resolved resolve_any) [mkHost ''a:1'' 1 ''A'', mkHost ''b:1'' 1 ''B'']) 2"
  let ?A = "resolved resolve_any (mkHost ''a:1'' 1 ''A'')"
  let ?B = "resolved resolve_any (mkHost ''b:1'' 1 ''B'')"
  note by_name = CreateLocalConn_dispatch_no_fallback
      [of "\<lparr>TargetServer = ''B''\<rparr>" ?glb 0 dial_refused "mkProvider [] 0"]
  note absent = CreateLocalConn_dispatch_no_fallback
      [of "\<lparr>TargetServer = ''C''\<rparr>" ?glb 0 dial_refused "mkProvider [] 0"]
  note by_weight = CreateLocalConn_dispatch_no_fallback
      [of "\<lparr>TargetServer = ''''\<rparr>" ?glb 0 dial_refused "mkProvider [] 0"]
  have "GetHost ?glb (TargetServer \<lparr>TargetServer = ''B''\<rparr>) 0 = Inr (Some ?B)
      \<and> dial_refused (addr ?B) = Inl (LibError ''connection refused'')"
    by (simp add: GetHost_def GetHostByName_def mkProvider_def mkHost_def resolved_def
          dial_refused_def)
  with by_name have "CreateLocalConn dial_refused ?glb (mkProvider [] 0) \<lparr>TargetServer = ''B''\<rparr> 0
      = Inr ((None, Some (LibError ''connection refused'')), [Dial (addr ?B)])"
    by blast
  then have named: "CreateLocalConn dial_refused ?glb (mkProvider [] 0) \<lparr>TargetServer = ''B''\<rparr> 0
      = Inr ((None, Some (LibError ''connection refused'')), [Dial (Some (TCPAddr ''b:1'' 1))])"
    by (simp add: resolved_def resolve_any_def mkHost_def)
  have "GetHost ?glb (TargetServer \<lparr>TargetServer = ''C''\<rparr>) 0 = Inr None"
    by (simp add: GetHost_def GetHostByName_def mkProvider_def mkHost_def resolved_def)
  with absent have none: "CreateLocalConn dial_refused ?glb (mkProvider [] 0)
      \<lparr>TargetServer = ''C''\<rparr> 0 = Inr ((None, Some errNoHost), [])"
    by blast
  have "GetHost ?glb (TargetServer \<lparr>TargetServer = ''''\<rparr>) 0 = Inr (Some ?A)
      \<and> dial_refused (addr ?A) = Inl (LibError ''connection refused'')"
    by (simp add: GetHost_def GetHostByWeight_def Intn_def mkProvider_def mkHost_def resolved_def
          dial_refused_def word_sle_eq)
  with by_weight have "CreateLocalConn dial_refused ?glb (mkProvider [] 0) \<lparr>TargetServer = ''''\<rparr> 0
      = Inr ((None, Some (LibError ''connection refused'')), [Dial (addr ?A)])"
    by blast
  then have weighted: "CreateLocalConn dial_refused ?glb (mkProvider [] 0) \<lparr>TargetServer = ''''\<rparr> 0
      = Inr ((None, Some (LibError ''connection refused'')), [Dial (Some (TCPAddr ''a:1'' 1))])"
    by (simp add: resolved_def resolve_any_def mkHost_def)
  from named none weighted show ?thesis by simp
qed

text \<open>
  C5. Claim: with a hook registered, a hook error after a successful dial closes the
  dialed connection and is returned with a nil connection; with no hook registered the
  dialed connection is returned unchanged.
\<close>

theorem CreateLocalConn_hook:
  "(\<forall>host conn w newConn err.
       GetHost glb (TargetServer remoteConn) drawn = Inr (Some host)
       \<and> DialTCP (addr host) = Inr conn \<and> wrapper tp = Some w
       \<and> w conn remoteConn = (newConn, Some err) \<longrightarrow>
     CreateLocalConn DialTCP glb tp remoteConn drawn
       = Inr ((None, Some err), [Dial (addr host), Wrap conn remoteConn, Close conn]))
   \<and> (\<forall>host conn.
       GetHost glb (TargetServer remoteConn) drawn = Inr (Some host)
       \<and> DialTCP (addr host) = Inr conn \<and> wrapper tp = None \<longrightarrow>
     CreateLocalConn DialTCP glb tp remoteConn drawn
       = Inr ((Some conn, None), [Dial (addr host)]))"
  by (simp add: CreateLocalConn_def)

theorem CreateLocalConn_hook_witness:
  "CreateLocalConn dial_ok
      (mkProvider [resolved resolve_any (mkHost ''a:1'' 1 ''A'')] 1)
      ((mkProvider [resolved resolve_any (mkHost ''a:1'' 1 ''A'')] 1)\<lparr>wrapper := Some closing_hook\<rparr>)
      \<lparr>TargetServer = ''A''\<rparr> 0
     = Inr ((None, Some (LibError ''wrap failed'')),
            [Dial (Some (TCPAddr ''a:1'' 1)), Wrap (TCPConn 7) \<lparr>TargetServer = ''A''\<rparr>,
             Close (TCPConn 7)])
   \<and> CreateLocalConn dial_ok
      (mkProvider [resolved resolve_any (mkHost ''a:1'' 1 ''A'')] 1)
      (mkProvider [resolved resolve_any (mkHost ''a:1'' 1 ''A'')] 1)
      \<lparr>TargetServer = ''A''\<rparr> 0
     = Inr ((Some (TCPConn 7), None), [Dial (Some (TCPAddr ''a:1'' 1))])"
proof -
  let ?glb = "mkProvider [resolved resolve_any (mkHost ''a:1'' 1 ''A'')] 1"
  let ?A = "resolved resolve_any (mkHost ''a:1'' 1 ''A'')"
  let ?remote = "\<lparr>TargetServer = ''A''\<rparr>"
  note hooked = CreateLocalConn_hook
      [of ?glb ?remote 0 dial_ok "?glb\<lparr>wrapper := Some closing_hook\<rparr>"]
  note plain = CreateLocalConn_hook [of ?glb ?remote 0 dial_ok ?glb]
  have sel: "GetHost ?glb (TargetServer ?remote) 0 = Inr (Some ?A)
      \<and> dial_ok (addr ?A) = Inr (TCPConn 7)"
    by (simp add: GetHost_def GetHostByName_def mkProvider_def mkHost_def resolved_def dial_ok_def)
  have "wrapper (?glb\<lparr>wrapper := Some closing_hook\<rparr>) = Some closing_hook
      \<and> closing_hook (TCPConn 7) ?remote = (None, Some (LibError ''wrap failed''))"
    by (simp add: closing_hook_def)
  with hooked sel have "CreateLocalConn dial_ok ?glb (?glb\<lparr>wrapper := Some closing_hook\<rparr>) ?remote 0
      = Inr ((None, Some (LibError ''wrap failed'')),
             [Dial (addr ?A), Wrap (TCPConn 7) ?remote, Close (TCPConn 7)])"
    by blast
  then have closed: "CreateLocalConn dial_ok ?glb (?glb\<lparr>wrapper := Some closing_hook\<rparr>) ?remote 0
      = Inr ((None, Some (LibError ''wrap failed'')),
             [Dial (Some (TCPAddr ''a:1'' 1)), Wrap (TCPConn 7) ?remote, Close (TCPConn 7)])"
    by (simp add: resolved_def resolve_any_def mkHost_def)
  have "wrapper ?glb = None" by (simp add: mkProvider_def)
  with plain sel have "CreateLocalConn dial_ok ?glb ?glb ?remote 0
      = Inr ((Some (TCPConn 7), None), [Dial (addr ?A)])"
    by blast
  then have unchanged: "CreateLocalConn dial_ok ?glb ?glb ?remote 0
      = Inr ((Some (TCPConn 7), None), [Dial (Some (TCPAddr ''a:1'' 1))])"
    by (simp add: resolved_def resolve_any_def mkHost_def)
  from closed unchanged show ?thesis by simp
qed

section \<open>Reloading the pool\<close>

lemma resolve_loop_Inr:
  "resolve_loop R w hs = Inr (hs', w') \<Longrightarrow>
   w' = w + sum_list (map Weight hs) \<and> hs' = map (resolved R) hs
   \<and> (\<forall>h\<in>set hs. \<not> isl (R (Addr h)))"
proof (induction hs arbitrary: w hs' w')
  case Nil
  then show ?case by simp
next
  case (Cons h hs)
  from Cons.prems obtain a rest' where
    a: "R (Addr h) = Inr a" and
    rest: "resolve_loop R (w + Weight h) hs = Inr (rest', w')" and
    hs': "hs' = h\<lparr>addr := Some a\<rparr> # rest'"
    by (auto split: sum.splits prod.splits)
  from Cons.IH [OF rest] a hs' show ?case
    by (simp add: resolved_def add.assoc)
qed

lemma resolve_loop_total:
  "\<forall>h\<in>set hs. \<not> isl (R (Addr h)) \<Longrightarrow> \<not> isl (resolve_loop R w hs)"
proof (induction hs arbitrary: w)
  case Nil
  then show ?case by simp
next
  case (Cons h hs)
  from Cons.prems obtain a where a: "R (Addr h) = Inr a"
    by (cases "R (Addr h)") auto
  from Cons.prems have "\<forall>x\<in>set hs. \<not> isl (R (Addr x))" by simp
  from Cons.IH [OF this, of "w + Weight h"] a show ?case
    by (auto split: sum.splits)
qed

lemma reset_accepts:
  assumes "reset R tp hs = (None, tp')"
  shows "tp' = tp\<lparr>hosts := map (resolved R) hs, weight := sum_list (map Weight hs)\<rparr>
     \<and> 0 <s sum_list (map Weight hs) \<and> (\<forall>h\<in>set hs. \<not> isl (R (Addr h)))"
proof -
  from assms obtain hs' w where
    loop: "resolve_loop R 0 hs = Inr (hs', w)" and w: "\<not> w \<le>s 0"
    and tp': "tp' = tp\<lparr>hosts := hs', weight := w\<rparr>"
    by (auto simp: reset_def split: sum.splits prod.splits if_splits)
  from resolve_loop_Inr [OF loop] w tp' show ?thesis
    by (simp add: word_sle_eq word_sless_alt)
qed

lemma resolve_loop_Inl:
  "\<exists>h\<in>set hs. isl (R (Addr h)) \<Longrightarrow> isl (resolve_loop R w hs)"
proof (induction hs arbitrary: w)
  case Nil
  then show ?case by simp
next
  case (Cons h hs)
  show ?case
  proof (cases "R (Addr h)")
    case (Inl err)
    then show ?thesis by simp
  next
    case (Inr a)
    with Cons.prems have "\<exists>x\<in>set hs. isl (R (Addr x))" by auto
    from Cons.IH [OF this, of "w + Weight h"] Inr show ?thesis
      by (auto split: sum.splits simp: isl_def)
  qed
qed

lemma reset_error_keeps: "reset R tp hs = (Some err, tp') \<Longrightarrow> tp' = tp"
  by (auto simp: reset_def split: sum.splits prod.splits if_splits)

lemma reset_unresolved:
  "\<exists>h\<in>set hs. isl (R (Addr h)) \<Longrightarrow> fst (reset R tp hs) \<noteq> None"
  using resolve_loop_Inl [of hs R 0]
  by (auto simp: reset_def isl_def split: sum.splits)

lemma reset_no_weight:
  "sum_list (map Weight hs) \<le>s 0 \<Longrightarrow> fst (reset R tp hs) \<noteq> None"
proof (cases "resolve_loop R 0 hs")
  case (Inl err)
  then show ?thesis by (simp add: reset_def)
next
  case (Inr r)
  assume le: "sum_list (map Weight hs) \<le>s 0"
  obtain hs' w where r: "r = (hs', w)" by (cases r)
  from resolve_loop_Inr [of R 0 hs hs' w] Inr r have "w = sum_list (map Weight hs)" by simp
  with le Inr r show ?thesis by (simp add: reset_def)
qed

lemma sint_sum_exact:
  assumes "- (2 ^ 63) \<le> (\<Sum>h\<leftarrow>hs. sint (Weight h))" "(\<Sum>h\<leftarrow>hs. sint (Weight h)) < 2 ^ 63"
  shows "sint (sum_list (map Weight hs) :: go_int) = (\<Sum>h\<leftarrow>hs. sint (Weight h))"
proof -
  have "sint (word_of_int (\<Sum>h\<leftarrow>hs. sint (Weight h)) :: go_int)
          = signed_take_bit 63 (\<Sum>h\<leftarrow>hs. sint (Weight h))"
    by (simp add: sint_sbintrunc')
  also have "\<dots> = (\<Sum>h\<leftarrow>hs. sint (Weight h))"
    using assms by (simp add: signed_take_bit_int_eq_self)
  finally show ?thesis by (simp add: word_sum_of_int)
qed

lemma reset_no_int_weight:
  assumes "- (2 ^ 63) \<le> (\<Sum>h\<leftarrow>hs. sint (Weight h))" "(\<Sum>h\<leftarrow>hs. sint (Weight h)) \<le> 0"
  shows "fst (reset R tp hs) \<noteq> None"
proof -
  from assms have "sint (sum_list (map Weight hs) :: go_int) \<le> 0"
    by (simp add: sint_sum_exact)
  then have "sum_list (map Weight hs) \<le>s 0" by (simp add: word_sle_eq)
  then show ?thesis by (rule reset_no_weight)
qed

text \<open>
  C2. Claim: \<^verbatim>\<open>Reload\<close> is atomic. If the file cannot be opened or decoded, or some host
  address fails to resolve, or the sum of the weights is \<open>\<le> 0\<close>, \<^verbatim>\<open>Reload\<close> returns an
  error and the provider is exactly what it was, so \<^verbatim>\<open>GetHost\<close> answers as before; only
  a fully validated pool is installed.

  \<^verbatim>\<open>reset\<close> adds the weights in Go's wrapping arithmetic and tests that sum. As amended:
  the sum is the wrapped 64-bit sum, which is the integer sum whenever that lies in
  \<open>[-2\<^sup>6\<^sup>3, 2\<^sup>6\<^sup>3)\<close>. With it, every error return leaves the provider as it was, each of
  the four failures gives an error, and a pool is installed only when every address
  resolved and the wrapped sum is positive. An integer sum below \<open>-2\<^sup>6\<^sup>3\<close> can wrap to a
  positive total, and then the pool is installed.
\<close>

theorem Reload_atomic:
  "(\<forall>err tp'. Reload Open Decode R tp = (Some err, tp') \<longrightarrow>
       tp' = tp \<and> GetHost tp' preferred drawn = GetHost tp preferred drawn)
   \<and> (isl (Open (ConfigFile tp)) \<longrightarrow> fst (Reload Open Decode R tp) \<noteq> None)
   \<and> (\<forall>fp. Open (ConfigFile tp) = Inr fp \<and> isl (Decode fp) \<longrightarrow>
         fst (Reload Open Decode R tp) \<noteq> None)
   \<and> (\<forall>fp cfg. Open (ConfigFile tp) = Inr fp \<and> Decode fp = Inr cfg
         \<and> (\<exists>h\<in>set (Hosts cfg). isl (R (Addr h))) \<longrightarrow>
         fst (Reload Open Decode R tp) \<noteq> None)
   \<and> (\<forall>fp cfg. Open (ConfigFile tp) = Inr fp \<and> Decode fp = Inr cfg
         \<and> sum_list (map Weight (Hosts cfg)) \<le>s 0 \<longrightarrow>
         fst (Reload Open Decode R tp) \<noteq> None)
   \<and> (\<forall>tp'. Reload Open Decode R tp = (None, tp') \<longrightarrow>
         (\<exists>fp cfg. Open (ConfigFile tp) = Inr fp \<and> Decode fp = Inr cfg
            \<and> (\<forall>h\<in>set (Hosts cfg). \<not> isl (R (Addr h)))
            \<and> 0 <s sum_list (map Weight (Hosts cfg))
            \<and> tp' = tp\<lparr>hosts := map (resolved R) (Hosts cfg),
                        weight := sum_list (map Weight (Hosts cfg))\<rparr>))
   \<and> (\<forall>fp cfg. Open (ConfigFile tp) = Inr fp \<and> Decode fp = Inr cfg
         \<and> - (2 ^ 63) \<le> (\<Sum>h\<leftarrow>Hosts cfg. sint (Weight h))
         \<and> (\<Sum>h\<leftarrow>Hosts cfg. sint (Weight h)) \<le> 0 \<longrightarrow>
         fst (Reload Open Decode R tp) \<noteq> None)"
proof (intro conjI impI allI)
  fix err tp'
  assume "Reload Open Decode R tp = (Some err, tp')"
  then have "tp' = tp"
    by (auto simp: Reload_def split: sum.splits dest: reset_error_keeps)
  then show "tp' = tp" and "GetHost tp' preferred drawn = GetHost tp preferred drawn"
    by simp_all
next
  assume "isl (Open (ConfigFile tp))"
  then show "fst (Reload Open Decode R tp) \<noteq> None"
    by (auto simp: Reload_def isl_def)
next
  fix fp
  assume "Open (ConfigFile tp) = Inr fp \<and> isl (Decode fp)"
  then show "fst (Reload Open Decode R tp) \<noteq> None"
    by (auto simp: Reload_def isl_def)
next
  fix fp cfg
  assume "Open (ConfigFile tp) = Inr fp \<and> Decode fp = Inr cfg
      \<and> (\<exists>h\<in>set (Hosts cfg). isl (R (Addr h)))"
  then show "fst (Reload Open Decode R tp) \<noteq> None"
    using reset_unresolved [of "Hosts cfg" R tp] by (simp add: Reload_def)
next
  fix fp cfg
  assume "Open (ConfigFile tp) = Inr fp \<and> Decode fp = Inr cfg
      \<and> sum_list (map Weight (Hosts cfg)) \<le>s 0"
  then show "fst (Reload Open Decode R tp) \<noteq> None"
    using reset_no_weight [of "Hosts cfg" R tp] by (simp add: Reload_def)
next
  fix tp'
  assume ok: "Reload Open Decode R tp = (None, tp')"
  then obtain fp cfg where
    o: "Open (ConfigFile tp) = Inr fp" and d: "Decode fp = Inr cfg"
    and r: "reset R tp (Hosts cfg) = (None, tp')"
    by (auto simp: Reload_def split: sum.splits)
  from reset_accepts [OF r] o d
  show "\<exists>fp cfg. Open (ConfigFile tp) = Inr fp \<and> Decode fp = Inr cfg
            \<and> (\<forall>h\<in>set (Hosts cfg). \<not> isl (R (Addr h)))
            \<and> 0 <s sum_list (map Weight (Hosts cfg))
            \<and> tp' = tp\<lparr>hosts := map (resolved R) (Hosts cfg),
                        weight := sum_list (map Weight (Hosts cfg))\<rparr>"
    by blast
next
  fix fp cfg
  assume "Open (ConfigFile tp) = Inr fp \<and> Decode fp = Inr cfg
      \<and> - (2 ^ 63) \<le> (\<Sum>h\<leftarrow>Hosts cfg. sint (Weight h))
      \<and> (\<Sum>h\<leftarrow>Hosts cfg. sint (Weight h)) \<le> 0"
  then show "fst (Reload Open Decode R tp) \<noteq> None"
    using reset_no_int_weight [of "Hosts cfg" R tp] by (simp add: Reload_def)
qed

theorem Reload_atomic_witness:
  "Reload open_ok (decode_as [mkHost ''a:1'' 0 ''A'']) resolve_any
      (mkProvider [resolved resolve_any (mkHost ''old:1'' 1 ''Old'')] 1)
     = (Some (Errorf ''no hosts''),
        mkProvider [resolved resolve_any (mkHost ''old:1'' 1 ''Old'')] 1)
   \<and> Reload open_ok (decode_as [mkHost ''a:1'' 1 ''A'', mkHost ''bad:1'' 1 ''B'']) resolve_any
      (mkProvider [resolved resolve_any (mkHost ''old:1'' 1 ''Old'')] 1)
     = (Some (LibError ''unknown host''),
        mkProvider [resolved resolve_any (mkHost ''old:1'' 1 ''Old'')] 1)
   \<and> Reload open_ok (decode_as [mkHost ''a:1'' 1 ''A'', mkHost ''b:1'' 2 ''B'']) resolve_any
      (mkProvider [resolved resolve_any (mkHost ''old:1'' 1 ''Old'')] 1)
     = (None,
        mkProvider [resolved resolve_any (mkHost ''a:1'' 1 ''A''),
                    resolved resolve_any (mkHost ''b:1'' 2 ''B'')] 3)"
proof -
  let ?old = "mkProvider [resolved resolve_any (mkHost ''old:1'' 1 ''Old'')] 1"
  let ?zero = "Reload open_ok (decode_as [mkHost ''a:1'' 0 ''A'']) resolve_any ?old"
  let ?bad = "Reload open_ok (decode_as [mkHost ''a:1'' 1 ''A'', mkHost ''bad:1'' 1 ''B''])
        resolve_any ?old"
  let ?good = "Reload open_ok (decode_as [mkHost ''a:1'' 1 ''A'', mkHost ''b:1'' 2 ''B''])
        resolve_any ?old"
  note zero_thm = Reload_atomic [of open_ok "decode_as [mkHost ''a:1'' 0 ''A'']" resolve_any ?old]
  note bad_thm = Reload_atomic
      [of open_ok "decode_as [mkHost ''a:1'' 1 ''A'', mkHost ''bad:1'' 1 ''B'']" resolve_any ?old]
  note good_thm = Reload_atomic
      [of open_ok "decode_as [mkHost ''a:1'' 1 ''A'', mkHost ''b:1'' 2 ''B'']" resolve_any ?old]
  note zero_keeps = zero_thm [THEN conjunct1, rule_format]
  note zero_sum = zero_thm [THEN conjunct2, THEN conjunct2, THEN conjunct2, THEN conjunct2,
      THEN conjunct1, rule_format]
  note bad_keeps = bad_thm [THEN conjunct1, rule_format]
  note bad_addr = bad_thm [THEN conjunct2, THEN conjunct2, THEN conjunct2, THEN conjunct1,
      rule_format]
  note good_pool = good_thm [THEN conjunct2, THEN conjunct2, THEN conjunct2, THEN conjunct2,
      THEN conjunct2, THEN conjunct1, rule_format]

  have "fst ?zero \<noteq> None"
    by (rule zero_sum [where fp = "''{...}''" and cfg = "\<lparr>Hosts = [mkHost ''a:1'' 0 ''A'']\<rparr>"])
      (simp add: open_ok_def decode_as_def mkHost_def)
  then obtain e1 where e1: "?zero = (Some e1, snd ?zero)"
    by (cases ?zero) auto
  from zero_keeps [OF e1] have "snd ?zero = ?old" by simp
  moreover have "fst ?zero = Some (Errorf ''no hosts'')"
    by (simp add: Reload_def reset_def open_ok_def decode_as_def resolve_any_def mkHost_def)
  ultimately have zero: "?zero = (Some (Errorf ''no hosts''), ?old)"
    by (simp add: prod_eq_iff)

  have "fst ?bad \<noteq> None"
    by (rule bad_addr [where fp = "''{...}''"
          and cfg = "\<lparr>Hosts = [mkHost ''a:1'' 1 ''A'', mkHost ''bad:1'' 1 ''B'']\<rparr>"])
      (simp add: open_ok_def decode_as_def mkHost_def resolve_any_def)
  then obtain e2 where e2: "?bad = (Some e2, snd ?bad)"
    by (cases ?bad) auto
  from bad_keeps [OF e2] have "snd ?bad = ?old" by simp
  moreover have "fst ?bad = Some (LibError ''unknown host'')"
    by (simp add: Reload_def reset_def open_ok_def decode_as_def resolve_any_def mkHost_def)
  ultimately have bad: "?bad = (Some (LibError ''unknown host''), ?old)"
    by (simp add: prod_eq_iff)

  have none: "fst ?good = None"
    by (simp add: Reload_def reset_def open_ok_def decode_as_def resolve_any_def mkHost_def
          word_sle_eq)
  then have "?good = (None, snd ?good)"
    by (simp add: prod_eq_iff)
  from good_pool [OF this] have "snd ?good
      = ?old\<lparr>hosts := map (resolved resolve_any) [mkHost ''a:1'' 1 ''A'', mkHost ''b:1'' 2 ''B''],
               weight := sum_list (map Weight [mkHost ''a:1'' 1 ''A'', mkHost ''b:1'' 2 ''B''])\<rparr>"
    by (auto simp: open_ok_def decode_as_def)
  with none have good: "?good
      = (None, mkProvider [resolved resolve_any (mkHost ''a:1'' 1 ''A''),
                    resolved resolve_any (mkHost ''b:1'' 2 ''B'')] 3)"
    by (simp add: prod_eq_iff mkProvider_def mkHost_def)
  from zero bad good show ?thesis by simp
qed

text \<open>With the weights \<open>-1\<close> and \<open>-2\<^sup>6\<^sup>3\<close> the integer sum is negative, the wrapped sum is
  \<open>2\<^sup>6\<^sup>3 - 1\<close>, and \<^verbatim>\<open>Reload\<close> replaces the pool.\<close>

theorem Reload_installs_wrapped_sum:
  "sint (Weight (mkHost ''a:1'' (- 1) ''A''))
     + sint (Weight (mkHost ''b:1'' (- 9223372036854775808) ''B'')) \<le> 0
   \<and> Reload open_ok
        (decode_as [mkHost ''a:1'' (- 1) ''A'', mkHost ''b:1'' (- 9223372036854775808) ''B''])
        resolve_any (mkProvider [resolved resolve_any (mkHost ''old:1'' 1 ''Old'')] 1)
     = (None,
        mkProvider [resolved resolve_any (mkHost ''a:1'' (- 1) ''A''),
                    resolved resolve_any (mkHost ''b:1'' (- 9223372036854775808) ''B'')]
          9223372036854775807)"
  by (simp add: Reload_def reset_def open_ok_def decode_as_def resolve_any_def resolved_def
        mkProvider_def mkHost_def word_sle_eq)

text \<open>
  C7. Claim: every pool \<^verbatim>\<open>reset\<close> accepts has each host weight \<open>\<ge> 0\<close> and the sum of
  weights \<open>> 0\<close>; a list with a negative weight is rejected.

  \<^verbatim>\<open>reset\<close> checks the sum only. As amended: \<^verbatim>\<open>reset\<close> accepts a list exactly when
  every address resolves and the sum of the weights, in Go's wrapping arithmetic, is
  \<open>> 0\<close>; the accepted pool keeps the weights given, has every address resolved, and its
  total is that sum. Single weights are not checked.
\<close>

theorem reset_accepted_pool:
  "(fst (reset R tp hs) = None \<longleftrightarrow>
      (\<forall>h\<in>set hs. \<not> isl (R (Addr h))) \<and> 0 <s sum_list (map Weight hs))
   \<and> (fst (reset R tp hs) = None \<longrightarrow>
      weight (snd (reset R tp hs)) = sum_list (map Weight hs)
      \<and> map Weight (hosts (snd (reset R tp hs))) = map Weight hs
      \<and> (\<forall>h\<in>set (hosts (snd (reset R tp hs))). addr h \<noteq> None))"
proof -
  have accepted: "(\<forall>h\<in>set hs. \<not> isl (R (Addr h))) \<and> 0 <s sum_list (map Weight hs)
      \<and> snd (reset R tp hs)
          = tp\<lparr>hosts := map (resolved R) hs, weight := sum_list (map Weight hs)\<rparr>"
    if "fst (reset R tp hs) = None"
  proof -
    from that have "reset R tp hs = (None, snd (reset R tp hs))"
      by (simp add: prod_eq_iff)
    from reset_accepts [OF this] show ?thesis by simp
  qed
  have validated: "fst (reset R tp hs) = None"
    if a: "(\<forall>h\<in>set hs. \<not> isl (R (Addr h))) \<and> 0 <s sum_list (map Weight hs)"
  proof -
    from a have "\<not> isl (resolve_loop R 0 hs)" by (simp add: resolve_loop_total)
    then obtain hs' w where loop: "resolve_loop R 0 hs = Inr (hs', w)"
      by (cases "resolve_loop R 0 hs") auto
    from resolve_loop_Inr [OF loop] have "w = sum_list (map Weight hs)" by simp
    with a have "\<not> w \<le>s 0" by (simp add: word_sle_eq word_sless_alt)
    with loop show ?thesis by (simp add: reset_def)
  qed
  have published: "weight (snd (reset R tp hs)) = sum_list (map Weight hs)
      \<and> map Weight (hosts (snd (reset R tp hs))) = map Weight hs
      \<and> (\<forall>h\<in>set (hosts (snd (reset R tp hs))). addr h \<noteq> None)"
    if "fst (reset R tp hs) = None"
  proof -
    from accepted [OF that] have eq: "snd (reset R tp hs)
        = tp\<lparr>hosts := map (resolved R) hs, weight := sum_list (map Weight hs)\<rparr>" by simp
    show ?thesis unfolding eq by (simp add: resolved_def comp_def)
  qed
  from accepted validated published show ?thesis by blast
qed

text \<open>A list with the weights \<open>-1\<close> and \<open>2\<close> is accepted.\<close>

theorem reset_accepts_negative_weight:
  "fst (reset resolve_any (mkProvider [] 0) [mkHost ''a:1'' (- 1) ''A'', mkHost ''b:1'' 2 ''B'']) = None
   \<and> Weight (mkHost ''a:1'' (- 1) ''A'') <s 0
   \<and> hosts (snd (reset resolve_any (mkProvider [] 0) [mkHost ''a:1'' (- 1) ''A'', mkHost ''b:1'' 2 ''B'']))
      = [(mkHost ''a:1'' (- 1) ''A'')\<lparr>addr := Some (TCPAddr ''a:1'' 1)\<rparr>,
         (mkHost ''b:1'' 2 ''B'')\<lparr>addr := Some (TCPAddr ''b:1'' 1)\<rparr>]"
  by (simp add: reset_def resolve_any_def mkProvider_def mkHost_def word_sle_eq word_sless_alt)

theorem reset_accepted_pool_witness:
  "fst (reset resolve_any (mkProvider [] 0) [mkHost ''a:1'' 1 ''A'', mkHost ''b:1'' 2 ''B'']) = None
   \<and> weight (snd (reset resolve_any (mkProvider [] 0) [mkHost ''a:1'' 1 ''A'', mkHost ''b:1'' 2 ''B''])) = 3
   \<and> fst (reset resolve_any (mkProvider [] 0) [mkHost ''a:1'' 1 ''A'', mkHost ''b:1'' (- 2) ''B''])
       = Some (Errorf ''no hosts'')"
  using reset_accepted_pool
      [of resolve_any "mkProvider [] 0" "[mkHost ''a:1'' 1 ''A'', mkHost ''b:1'' 2 ''B'']"]
    reset_accepted_pool
      [of resolve_any "mkProvider [] 0" "[mkHost ''a:1'' 1 ''A'', mkHost ''b:1'' (- 2) ''B'']"]
  by (simp add: reset_def resolve_any_def mkProvider_def mkHost_def word_sle_eq word_sless_alt)

section \<open>Weighted selection after a reset\<close>

text \<open>
  C10. Claim: when the total weight is positive and every host weight is non-negative, as
  guaranteed after a successful \<^verbatim>\<open>reset\<close>, \<^verbatim>\<open>GetHostByWeight\<close> returns a host for every
  draw in \<open>[0, totalWeight)\<close>; the \<^verbatim>\<open>return nil\<close> after the loop is not reached.

  \<^verbatim>\<open>reset\<close> guarantees the positive total, not the sign of the weights. As amended: when
  the total weight is the wrapped sum of the host weights and positive, and every host
  weight is non-negative, every draw in \<open>[0, totalWeight)\<close> returns a host of the pool;
  this holds after a successful \<^verbatim>\<open>reset\<close> of a list whose weights are all non-negative.
\<close>

theorem GetHostByWeight_returns_host:
  "(weight tp = sum_list (map Weight (hosts tp)) \<and> 0 <s weight tp
      \<and> (\<forall>h\<in>set (hosts tp). 0 \<le>s Weight h) \<and> 0 \<le>s drawn \<and> drawn <s weight tp
    \<longrightarrow> (\<exists>host\<in>set (hosts tp). GetHostByWeight tp drawn = Inr (Some host)))
   \<and> (reset R tp0 hs = (None, tp) \<and> (\<forall>h\<in>set hs. 0 \<le>s Weight h)
      \<and> 0 \<le>s drawn \<and> drawn <s weight tp
    \<longrightarrow> (\<exists>host\<in>set (hosts tp). GetHostByWeight tp drawn = Inr (Some host)))"
proof (intro conjI impI)
  assume "weight tp = sum_list (map Weight (hosts tp)) \<and> 0 <s weight tp
      \<and> (\<forall>h\<in>set (hosts tp). 0 \<le>s Weight h) \<and> 0 \<le>s drawn \<and> drawn <s weight tp"
  then have "weight tp = sum_list (map Weight (hosts tp))" "0 <s weight tp"
    "\<forall>h\<in>set (hosts tp). 0 \<le>s Weight h" "0 \<le>s drawn" "drawn <s weight tp"
    by blast+
  then show "\<exists>host\<in>set (hosts tp). GetHostByWeight tp drawn = Inr (Some host)"
    by (rule weight_loop_finds_host)
next
  assume a: "reset R tp0 hs = (None, tp) \<and> (\<forall>h\<in>set hs. 0 \<le>s Weight h)
      \<and> 0 \<le>s drawn \<and> drawn <s weight tp"
  then have r: "reset R tp0 hs = (None, tp)" by simp
  from reset_accepts [OF r]
  have tp: "tp = tp0\<lparr>hosts := map (resolved R) hs, weight := sum_list (map Weight hs)\<rparr>"
    and pos: "0 <s sum_list (map Weight hs)" by simp_all
  have ws: "map Weight (hosts tp) = map Weight hs"
    unfolding tp by (simp add: resolved_def comp_def)
  have total: "weight tp = sum_list (map Weight (hosts tp))"
    unfolding ws unfolding tp by simp
  have pos': "0 <s weight tp" using pos unfolding tp by simp
  have nonneg: "\<forall>h\<in>set (hosts tp). 0 \<le>s Weight h"
    using a unfolding tp by (simp add: resolved_def)
  from a have lo: "0 \<le>s drawn" and hi: "drawn <s weight tp" by simp_all
  from total pos' nonneg lo hi
  show "\<exists>host\<in>set (hosts tp). GetHostByWeight tp drawn = Inr (Some host)"
    by (rule weight_loop_finds_host)
qed

text \<open>\<^verbatim>\<open>reset\<close> accepts the weights \<open>-1\<close> and \<open>-2\<^sup>6\<^sup>3\<close> with the total \<open>2\<^sup>6\<^sup>3 - 1\<close>; draw 0
  then passes both hosts and the loop ends in \<^verbatim>\<open>return nil\<close>.\<close>

theorem reset_negative_weights_reach_nil:
  "reset resolve_any (mkProvider [] 0)
      [mkHost ''a:1'' (- 1) ''A'', mkHost ''b:1'' (- 9223372036854775808) ''B'']
     = (None,
        mkProvider [resolved resolve_any (mkHost ''a:1'' (- 1) ''A''),
                    resolved resolve_any (mkHost ''b:1'' (- 9223372036854775808) ''B'')]
          9223372036854775807)
   \<and> (0 :: go_int) <s 9223372036854775807 \<and> (0 :: go_int) \<le>s 0
   \<and> GetHostByWeight
        (mkProvider [resolved resolve_any (mkHost ''a:1'' (- 1) ''A''),
                     resolved resolve_any (mkHost ''b:1'' (- 9223372036854775808) ''B'')]
           9223372036854775807) 0
     = Inr None"
  by (simp add: reset_def resolve_any_def resolved_def GetHostByWeight_def Intn_def
        mkProvider_def mkHost_def word_sle_eq word_sless_alt)

theorem GetHostByWeight_returns_host_witness:
  "reset resolve_any (mkProvider [] 0) [mkHost ''a:1'' 2 ''A'', mkHost ''b:1'' 3 ''B'']
     = (None, mkProvider [resolved resolve_any (mkHost ''a:1'' 2 ''A''),
                          resolved resolve_any (mkHost ''b:1'' 3 ''B'')] 5)
   \<and> (0::go_int) \<le>s 4 \<and> (4::go_int) <s 5
   \<and> (\<exists>host\<in>set (hosts (mkProvider [resolved resolve_any (mkHost ''a:1'' 2 ''A''),
                                      resolved resolve_any (mkHost ''b:1'' 3 ''B'')] 5)).
        GetHostByWeight (mkProvider [resolved resolve_any (mkHost ''a:1'' 2 ''A''),
                                     resolved resolve_any (mkHost ''b:1'' 3 ''B'')] 5) 4
          = Inr (Some host))
   \<and> GetHostByWeight (mkProvider [resolved resolve_any (mkHost ''a:1'' 2 ''A''),
                                  resolved resolve_any (mkHost ''b:1'' 3 ''B'')] 5) 4
        = Inr (Some (resolved resolve_any (mkHost ''b:1'' 3 ''B'')))"
proof -
  let ?hs = "[mkHost ''a:1'' 2 ''A'', mkHost ''b:1'' 3 ''B'']"
  let ?tp = "mkProvider [resolved resolve_any (mkHost ''a:1'' 2 ''A''),
                         resolved resolve_any (mkHost ''b:1'' 3 ''B'')] 5"
  note found_thm = GetHostByWeight_returns_host [of ?tp 4 resolve_any "mkProvider [] 0" ?hs]
  have accepted: "reset resolve_any (mkProvider [] 0) ?hs = (None, ?tp)"
    by (simp add: reset_def resolve_any_def resolved_def mkProvider_def mkHost_def word_sle_eq)
  have weights: "\<forall>h\<in>set ?hs. 0 \<le>s Weight h"
    by (simp add: mkHost_def word_sle_eq)
  have draw: "(0::go_int) \<le>s 4 \<and> (4::go_int) <s weight ?tp"
    by (simp add: mkProvider_def word_sle_eq word_sless_alt)
  from found_thm accepted weights draw
  have found: "\<exists>host\<in>set (hosts ?tp). GetHostByWeight ?tp 4 = Inr (Some host)"
    by blast
  have which: "GetHostByWeight ?tp 4 = Inr (Some (resolved resolve_any (mkHost ''b:1'' 3 ''B'')))"
    by (simp add: GetHostByWeight_def Intn_def mkProvider_def mkHost_def resolved_def word_sle_eq)
  from accepted draw found which show ?thesis by (simp add: mkProvider_def)
qed

section \<open>Default transport\<close>

lemma formal_tcp: "formal name = Some Var_tcp \<longleftrightarrow> name = ''tcp''"
  by (simp add: formal_def)

lemma formal_kcp: "formal name = Some Var_kcp \<longleftrightarrow> name = ''kcp''"
  by (simp add: formal_def)

lemma Value_Set_keeps:
  "var \<noteq> Var_tcp \<Longrightarrow> var \<noteq> Var_kcp \<Longrightarrow> Value_Set ParseInt Atoi var val vars = Inr (e, vars')
   \<Longrightarrow> tcp vars' = tcp vars \<and> kcp vars' = kcp vars"
  by (cases var) (auto simp: Value_Set_def int_Set_def split: sum.splits)

lemma flag_Parse_keeps:
  "\<forall>s\<in>set args. \<not> names_flag s ''tcp'' \<and> \<not> names_flag s ''kcp'' \<Longrightarrow>
   flag_Parse ParseInt Atoi vars args = Inr (e, vars') \<Longrightarrow>
   tcp vars' = tcp vars \<and> kcp vars' = kcp vars"
proof (induction "length args" arbitrary: args vars rule: less_induct)
  case less
  show ?case
  proof (cases args)
    case Nil
    with less.prems(2) show ?thesis by simp
  next
    case (Cons s rest)
    let ?name = "fst (cut_equals (strip_minuses s))"
    have later: "tcp vars' = tcp vars1 \<and> kcp vars' = kcp vars1"
      if "flag_Parse ParseInt Atoi vars1 tail = Inr (e, vars')"
        and "length tail < length args" and "set tail \<subseteq> set args" for vars1 tail
      using less.hyps [OF that(2) _ that(1)] less.prems(1) that(3) by blast
    show ?thesis
    proof (cases "length s < 2 \<or> take 1 s \<noteq> ''-'' \<or> s = ''--''
        \<or> strip_minuses s = [] \<or> take 1 (strip_minuses s) = ''-''
        \<or> take 1 (strip_minuses s) = ''=''")
      case True
      with less.prems(2) Cons show ?thesis by (auto split: if_splits)
    next
      case False
      then have "2 \<le> length s" "take 1 s = ''-''" by auto
      with less.prems(1) Cons have nm: "?name \<noteq> ''tcp''" "?name \<noteq> ''kcp''"
        by (auto simp: names_flag_def)
      show ?thesis
      proof (cases "formal ?name")
        case None
        with False less.prems(2) Cons show ?thesis by (auto split: if_splits)
      next
        case (Some var)
        with nm have var: "var \<noteq> Var_tcp" "var \<noteq> Var_kcp"
          using formal_tcp [of ?name] formal_kcp [of ?name] by auto
        have step: "tcp vars' = tcp vars \<and> kcp vars' = kcp vars"
          if run: "(case Value_Set ParseInt Atoi var val vars of
                 Inl p \<Rightarrow> Inl p
               | Inr (Some err, vars1) \<Rightarrow> Inr (Some (Errorf ''invalid value''), vars1)
               | Inr (None, vars1) \<Rightarrow> flag_Parse ParseInt Atoi vars1 tail) = Inr (e, vars')"
            and tail: "length tail < length args" "set tail \<subseteq> set args" for val tail
        proof (cases "Value_Set ParseInt Atoi var val vars")
          case (Inl p)
          with run show ?thesis by simp
        next
          case (Inr r)
          obtain err vars1 where r: "r = (err, vars1)" by (cases r)
          from Value_Set_keeps [OF var] Inr r
          have k: "tcp vars1 = tcp vars \<and> kcp vars1 = kcp vars" by simp
          show ?thesis
          proof (cases err)
            case None
            with run Inr r have "flag_Parse ParseInt Atoi vars1 tail = Inr (e, vars')" by simp
            from later [OF this tail] k show ?thesis by simp
          next
            case (Some err')
            with run Inr r k show ?thesis by auto
          qed
        qed
        show ?thesis
        proof (cases "snd (cut_equals (strip_minuses s))")
          case (Some val)
          with False \<open>formal ?name = Some var\<close> less.prems(2) Cons
          show ?thesis by (intro step [where val = val and tail = rest]) auto
        next
          case None
          show ?thesis
          proof (cases rest)
            case Nil
            with False \<open>formal ?name = Some var\<close> None less.prems(2) Cons
            show ?thesis by simp
          next
            case (Cons val rest')
            with False \<open>formal ?name = Some var\<close> None less.prems(2) \<open>args = s # rest\<close>
            show ?thesis by (intro step [where val = val and tail = rest']) auto
          qed
        qed
      qed
    qed
  qed
qed

text \<open>
  C8. Claim: when neither the \<^verbatim>\<open>tcp\<close> nor the \<^verbatim>\<open>kcp\<close> flag is given on the command
  line, the program listens on tcp only. At line 295 both \<^verbatim>\<open>set\<close> fields are then
  false, and the lines 295 to 315 start the tcp listener and no kcp listener. For a whole
  run of \<^verbatim>\<open>main\<close> on a command line with no argument that reads as \<^verbatim>\<open>tcp\<close> or
  \<^verbatim>\<open>kcp\<close>: if it comes to listen at all, it listens on tcp only; and it does come to
  listen when the flags parse, the pool loads and the installed hooks return.
\<close>

theorem main_default_tcp:
  "(\<not> set_flag t \<and> \<not> set_flag k \<longrightarrow> start_listeners t k = [''tcp''])
   \<and> (\<forall>ls. (\<forall>s\<in>set args. \<not> names_flag s ''tcp'' \<and> \<not> names_flag s ''kcp'')
         \<and> main ParseInt Atoi Open Decode R glbWrapperHooks args = Listening ls
       \<longrightarrow> ls = [''tcp''])
   \<and> (\<forall>vars tp'. (\<forall>s\<in>set args. \<not> names_flag s ''tcp'' \<and> \<not> names_flag s ''kcp'')
         \<and> flag_Parse ParseInt Atoi default_vars args = Inr (None, vars)
         \<and> Reload Open Decode R
              \<lparr>hosts = [], weight = 0, wrapper = None, ConfigFile = config vars\<rparr> = (None, tp')
         \<and> fst (wrapperHook glbWrapperHooks tp') = None
       \<longrightarrow> main ParseInt Atoi Open Decode R glbWrapperHooks args = Listening [''tcp''])"
proof -
  have block: "start_listeners t k = [''tcp'']" if "\<not> set_flag t \<and> \<not> set_flag k" for t k
    using that by (simp add: start_listeners_def)
  have parsed: "start_listeners (tcp vars) (kcp vars) = [''tcp'']"
    if "\<forall>s\<in>set args. \<not> names_flag s ''tcp'' \<and> \<not> names_flag s ''kcp''"
      and "flag_Parse ParseInt Atoi default_vars args = Inr (e, vars)" for e vars
  proof -
    from flag_Parse_keeps [OF that]
    have "tcp vars = zero_OptionsFlag \<and> kcp vars = zero_OptionsFlag"
      by (simp add: default_vars_def)
    then show ?thesis by (simp add: block zero_OptionsFlag_def)
  qed
  have only_tcp: "ls = [''tcp'']"
    if none: "\<forall>s\<in>set args. \<not> names_flag s ''tcp'' \<and> \<not> names_flag s ''kcp''"
      and run: "main ParseInt Atoi Open Decode R glbWrapperHooks args = Listening ls" for ls
  proof -
    from run obtain vars where
      p: "flag_Parse ParseInt Atoi default_vars args = Inr (None, vars)"
      and ls: "ls = start_listeners (tcp vars) (kcp vars)"
      by (auto simp: main_def split: sum.splits prod.splits option.splits)
    from parsed [OF none p] ls show ?thesis by simp
  qed
  have reaches: "main ParseInt Atoi Open Decode R glbWrapperHooks args = Listening [''tcp'']"
    if none: "\<forall>s\<in>set args. \<not> names_flag s ''tcp'' \<and> \<not> names_flag s ''kcp''"
      and p: "flag_Parse ParseInt Atoi default_vars args = Inr (None, vars)"
      and load: "Reload Open Decode R
          \<lparr>hosts = [], weight = 0, wrapper = None, ConfigFile = config vars\<rparr> = (None, tp')"
      and hooks: "fst (wrapperHook glbWrapperHooks tp') = None" for vars tp'
  proof -
    obtain q tp'' where h: "wrapperHook glbWrapperHooks tp' = (q, tp'')"
      by (cases "wrapperHook glbWrapperHooks tp'")
    with hooks have "q = None" by simp
    with h p load parsed [OF none p] show ?thesis
      by (simp add: main_def)
  qed
  from block only_tcp reaches show ?thesis by blast
qed

theorem main_default_tcp_witness:
  "main parse_int_sample atoi_none open_ok (decode_as [mkHost ''a:1'' 1 ''A'']) resolve_any
      [\<lambda>tp. MustSetWrapper tp (Some passing_hook)] [''-listen'', '':80'', ''--log=3'']
     = Listening [''tcp'']
   \<and> main parse_int_sample atoi_none open_ok (decode_as [mkHost ''a:1'' 1 ''A'']) resolve_any
      [\<lambda>tp. MustSetWrapper tp (Some passing_hook)] [] = Listening [''tcp'']
   \<and> start_listeners zero_OptionsFlag zero_OptionsFlag = [''tcp'']
   \<and> main parse_int_sample atoi_none open_ok (decode_as [mkHost ''a:1'' 1 ''A'']) resolve_any
      [\<lambda>tp. MustSetWrapper tp (Some passing_hook)] [''-bogus'']
     = UsageExit (Errorf ''flag provided but not defined'')
   \<and> main parse_int_sample atoi_none open_ok (decode_as [mkHost ''a:1'' 1 ''A'']) resolve_any
      [\<lambda>tp. MustSetWrapper tp (Some passing_hook)] [''-h'']
     = UsageExit (Errorf ''flag: help requested'')
   \<and> main parse_int_sample atoi_none open_ok (decode_as [mkHost ''a:1'' 1 ''A'']) resolve_any
      [\<lambda>tp. MustSetWrapper tp (Some passing_hook)] [''-log'', ''x'']
     = UsageExit (Errorf ''invalid value'')"
proof -
  let ?args = "[''-listen'', '':80'', ''--log=3'']"
  let ?vars = "default_vars\<lparr>listen := '':80'', logLevel := 3\<rparr>"
  let ?new = "\<lparr>hosts = [], weight = 0, wrapper = None, ConfigFile = config ?vars\<rparr>"
  let ?tp = "?new\<lparr>hosts := [resolved resolve_any (mkHost ''a:1'' 1 ''A'')], weight := 1\<rparr>"
  let ?hooks = "[\<lambda>tp. MustSetWrapper tp (Some passing_hook)]"
  note run = main_default_tcp
      [of zero_OptionsFlag zero_OptionsFlag ?args parse_int_sample atoi_none open_ok
          "decode_as [mkHost ''a:1'' 1 ''A'']" resolve_any ?hooks]
  have flags: "\<forall>s\<in>set ?args. \<not> names_flag s ''tcp'' \<and> \<not> names_flag s ''kcp''"
    by (simp add: names_flag_def strip_minuses_def cut_equals_def)
  have parse: "flag_Parse parse_int_sample atoi_none default_vars ?args = Inr (None, ?vars)"
    by (simp add: strip_minuses_def cut_equals_def formal_def Value_Set_def int_Set_def
          parse_int_sample_def)
  have load: "Reload open_ok (decode_as [mkHost ''a:1'' 1 ''A'']) resolve_any ?new = (None, ?tp)"
    by (simp add: Reload_def reset_def open_ok_def decode_as_def resolve_any_def resolved_def
          mkHost_def word_sle_eq)
  have hooks: "fst (wrapperHook ?hooks ?tp) = None"
    by (simp add: MustSetWrapper_def)
  from run flags parse load hooks
  have given: "main parse_int_sample atoi_none open_ok (decode_as [mkHost ''a:1'' 1 ''A''])
      resolve_any ?hooks ?args = Listening [''tcp'']"
    by blast
  from run have block: "start_listeners zero_OptionsFlag zero_OptionsFlag = [''tcp'']"
    by (simp add: zero_OptionsFlag_def)
  have empty: "main parse_int_sample atoi_none open_ok (decode_as [mkHost ''a:1'' 1 ''A''])
      resolve_any ?hooks [] = Listening [''tcp'']"
    by (simp add: main_def default_vars_def Reload_def reset_def open_ok_def decode_as_def
          resolve_any_def mkHost_def word_sle_eq MustSetWrapper_def start_listeners_def
          zero_OptionsFlag_def)
  have bogus: "main parse_int_sample atoi_none open_ok (decode_as [mkHost ''a:1'' 1 ''A''])
      resolve_any ?hooks [''-bogus''] = UsageExit (Errorf ''flag provided but not defined'')"
    by (simp add: main_def strip_minuses_def cut_equals_def formal_def)
  have asked: "main parse_int_sample atoi_none open_ok (decode_as [mkHost ''a:1'' 1 ''A''])
      resolve_any ?hooks [''-h''] = UsageExit (Errorf ''flag: help requested'')"
    by (simp add: main_def strip_minuses_def cut_equals_def formal_def)
  have badint: "main parse_int_sample atoi_none open_ok (decode_as [mkHost ''a:1'' 1 ''A''])
      resolve_any ?hooks [''-log'', ''x''] = UsageExit (Errorf ''invalid value'')"
    by (simp add: main_def strip_minuses_def cut_equals_def formal_def Value_Set_def int_Set_def
          parse_int_sample_def)
  from given empty block bogus asked badint show ?thesis by simp
qed

end
